theory Spec2Isabelle
  imports Complex_Main "HOL-Library.Multiset" "HOL-Library.Sublist"
begin

section \<open>Data model\<close>

text \<open>
  The induction planner of \<^verbatim>\<open>streamlit_induction_app.py\<close> works on three pandas
  tables. A table is modelled row-wise, as a list of records. Arithmetic on scores is
  modelled over the reals; the one floating-point value that the code can produce and that
  is no real number, NaN, is written out: a statistic or a score is a \<open>real option\<close> and
  \<open>None\<close> is NaN.
\<close>

datatype py_error = KeyError | TypeError | ValueError

text \<open>
  A cell of the \<^verbatim>\<open>branding_priority\<close>, \<^verbatim>\<open>mileage_last_week\<close> or
  \<^verbatim>\<open>bay_position\<close> column: a number, a missing value (pandas reads an empty field as
  NaN), or a text that Python's \<^verbatim>\<open>int()\<close> and \<^verbatim>\<open>float()\<close> reject.
\<close>

datatype cell = Num real | NaN | Text string

type_synonym timestamp = int

text \<open>
  One roster row. The type parameter is the type of the \<^verbatim>\<open>fitness_valid_until\<close>
  cell: \<open>string option\<close> as read from the CSV file, \<open>timestamp option\<close> after
  \<^verbatim>\<open>pd.to_datetime\<close> (\<open>None\<close> is NaT). The columns \<^verbatim>\<open>job_card_open\<close> and
  \<^verbatim>\<open>needs_cleaning\<close> are boolean columns.
\<close>

record 'd train =
  train_id :: string
  fitness_valid_until :: 'd
  job_card_open :: bool
  branding_priority :: cell
  mileage_last_week :: cell
  needs_cleaning :: bool
  bay_position :: cell

record job_card =
  jc_train_id :: string
  job_card_id :: string
  severity :: string

text \<open>The job-card table; its \<^verbatim>\<open>severity\<close> column may be absent.\<close>

record job_card_table =
  has_severity_col :: bool
  jc_rows :: "job_card list"

record cleaning_slot =
  slot_id :: string
  available :: bool
  shift :: string

text \<open>The cleaning-slot table; its \<^verbatim>\<open>available\<close> column may be absent.\<close>

record cleaning_table =
  has_available_col :: bool
  cs_rows :: "cleaning_slot list"

text \<open>One row of the table that \<^verbatim>\<open>evaluate\<close> returns.\<close>

record evaluation =
  out_train_id :: string
  eligible :: bool
  score :: "real option"
  reason :: string
  out_branding_priority :: int
  out_mileage_last_week :: real
  out_bay_position :: cell

datatype assignment = Service | Standby | Maintenance_Blocked

record allocation = evaluation +
  assignment :: assignment

section \<open>Input normalisation (line 61)\<close>



section \<open>The evaluation function (lines 64 to 119)\<close>

subsection \<open>Cleaning capacity (lines 66 to 68)\<close>

definition cleaning_capacity_of :: "cleaning_table option \<Rightarrow> nat option" where
  "cleaning_capacity_of cleaning_slots =
     (case cleaning_slots of
        None \<Rightarrow> None
      | Some t \<Rightarrow> if has_available_col t
                  then Some (length (filter available (cs_rows t)))
                  else None)"

subsection \<open>Mileage statistics (lines 72 and 73)\<close>

fun numeric_values :: "cell list \<Rightarrow> real list" where
  "numeric_values [] = []"
| "numeric_values (Num x # cs) = x # numeric_values cs"
| "numeric_values (NaN # cs) = numeric_values cs"
| "numeric_values (Text s # cs) = numeric_values cs"

fun is_text :: "cell \<Rightarrow> bool" where
  "is_text (Text s) = True"
| "is_text (Num x) = False"
| "is_text NaN = False"

text \<open>
  \<^verbatim>\<open>Series.mean()\<close> skips missing values; of no value at all it is NaN. On a column
  that holds a non-numeric text it raises.
\<close>

definition col_mean :: "cell list \<Rightarrow> py_error + real option" where
  "col_mean col =
     (if list_ex is_text col then Inl TypeError
      else let xs = numeric_values col
           in Inr (if xs = [] then None else Some (sum_list xs / real (length xs))))"

text \<open>
  \<^verbatim>\<open>Series.std()\<close> is called with no argument, so it is the sample standard deviation
  (\<^verbatim>\<open>ddof=1\<close>): the sum of squared deviations is divided by one less than the number of
  values, and fewer than two values give NaN.
\<close>

definition col_std :: "cell list \<Rightarrow> py_error + real option" where
  "col_std col =
     (if list_ex is_text col then Inl TypeError
      else let xs = numeric_values col
           in Inr (if length xs < 2 then None
                   else let m = sum_list xs / real (length xs)
                        in Some (sqrt (sum_list (map (\<lambda>x. (x - m)\<^sup>2) xs) / real (length xs - 1)))))"

text \<open>
  \<^verbatim>\<open>std or 1\<close>: Python's \<^verbatim>\<open>or\<close> returns its right operand when the left one is
  falsy. The float 0.0 is falsy; NaN is not.
\<close>

definition or_1 :: "real option \<Rightarrow> real option" where
  "or_1 s = (case s of None \<Rightarrow> None | Some v \<Rightarrow> if v = 0 then Some 1 else Some v)"

subsection \<open>The eligibility checks of one row (lines 76 to 102)\<close>

text \<open>
  The loop body updates the locals \<^verbatim>\<open>eligible\<close>, \<^verbatim>\<open>reason\<close> and
  \<^verbatim>\<open>cleaning_used\<close>; each check takes and returns the three of them.
\<close>

type_synonym row_state = "bool \<times> string list \<times> nat"

definition fitness_expired :: "timestamp \<Rightarrow> timestamp option \<Rightarrow> bool" where
  "fitness_expired today d = (case d of None \<Rightarrow> True | Some t \<Rightarrow> t < today)"

definition fitness_check :: "timestamp \<Rightarrow> timestamp option train \<Rightarrow> row_state \<Rightarrow> row_state" where
  "fitness_check today r st =
     (case st of (elig, reasons, used) \<Rightarrow>
        if fitness_expired today (fitness_valid_until r)
        then (False, reasons @ [''Expired fitness''], used)
        else (elig, reasons, used))"

text \<open>
  The first job card of the train, if the table is supplied and has one:
  \<^verbatim>\<open>r["train_id"] in job_cards["train_id"].values\<close>, and \<^verbatim>\<open>.iloc[0]\<close> of the
  matching rows.
\<close>

definition open_job_card :: "job_card_table option \<Rightarrow> 'd train \<Rightarrow> job_card option" where
  "open_job_card job_cards r =
     (case job_cards of
        None \<Rightarrow> None
      | Some t \<Rightarrow> find (\<lambda>j. jc_train_id j = train_id r) (jc_rows t))"

definition severity_text :: "job_card_table option \<Rightarrow> job_card \<Rightarrow> string" where
  "severity_text job_cards j =
     (case job_cards of
        None \<Rightarrow> ''N/A''
      | Some t \<Rightarrow> if has_severity_col t then severity j else ''N/A'')"

definition job_card_check :: "job_card_table option \<Rightarrow> 'd train \<Rightarrow> row_state \<Rightarrow> row_state" where
  "job_card_check job_cards r st =
     (case st of (elig, reasons, used) \<Rightarrow>
        (case open_job_card job_cards r of
           None \<Rightarrow> (elig, reasons, used)
         | Some j \<Rightarrow>
             (False,
              reasons @ [''Open job-card ('' @ severity_text job_cards j @ '')''],
              used)))"

definition cleaning_check :: "nat option \<Rightarrow> 'd train \<Rightarrow> row_state \<Rightarrow> row_state" where
  "cleaning_check cleaning_capacity r st =
     (case st of (elig, reasons, used) \<Rightarrow>
        if needs_cleaning r then
          (case cleaning_capacity of
             None \<Rightarrow> (elig, reasons @ [''Needs cleaning''], used)
           | Some cap \<Rightarrow>
               if elig then
                 (if used < cap
                  then (elig, reasons @ [''Needs cleaning''], used + 1)
                  else (False,
                        reasons @ [''Needs cleaning''] @ [''No cleaning slot available''],
                        used))
               else (elig, reasons @ [''Needs cleaning''], used))
        else (elig, reasons, used))"

definition check_row ::
  "timestamp \<Rightarrow> job_card_table option \<Rightarrow> nat option \<Rightarrow> nat \<Rightarrow> timestamp option train \<Rightarrow> row_state" where
  "check_row today job_cards cleaning_capacity used r =
     cleaning_check cleaning_capacity r
       (job_card_check job_cards r
          (fitness_check today r (True, [], used)))"

subsection \<open>Scoring (lines 104 to 108)\<close>

text \<open>\<^verbatim>\<open>int(x)\<close> of a float truncates towards zero.\<close>

definition py_int :: "real \<Rightarrow> int" where
  "py_int x = (if 0 \<le> x then \<lfloor>x\<rfloor> else \<lceil>x\<rceil>)"

text \<open>
  Line 105: a missing value is replaced by 0; any other value goes to \<^verbatim>\<open>int()\<close>, which
  raises \<^verbatim>\<open>ValueError\<close> on a text that is no integer literal.
\<close>

definition branding_of :: "cell \<Rightarrow> py_error + int" where
  "branding_of c =
     (case c of NaN \<Rightarrow> Inr 0 | Num x \<Rightarrow> Inr (py_int x) | Text s \<Rightarrow> Inl ValueError)"

text \<open>Line 106: the same with \<^verbatim>\<open>float()\<close>.\<close>

definition mileage_of :: "cell \<Rightarrow> py_error + real" where
  "mileage_of c =
     (case c of NaN \<Rightarrow> Inr 0 | Num x \<Rightarrow> Inr x | Text s \<Rightarrow> Inl ValueError)"

definition score_of :: "real option \<Rightarrow> real option \<Rightarrow> int \<Rightarrow> real \<Rightarrow> real option" where
  "score_of mileage_mean mileage_std branding mileage =
     (case mileage_mean of
        None \<Rightarrow> None
      | Some m \<Rightarrow>
          (case mileage_std of
             None \<Rightarrow> None
           | Some s \<Rightarrow>
               let norm_mileage = (mileage - m) / s
               in Some (real_of_int branding * 1000 - norm_mileage * 100)))"

subsection \<open>The loop (lines 75 to 119)\<close>

text \<open>\<^verbatim>\<open>"; ".join(reason) if reason else "OK"\<close>\<close>

fun join :: "string \<Rightarrow> string list \<Rightarrow> string" where
  "join sep [] = []"
| "join sep [x] = x"
| "join sep (x # y # zs) = x @ sep @ join sep (y # zs)"

definition reason_text :: "string list \<Rightarrow> string" where
  "reason_text reasons = (if reasons = [] then ''OK'' else join ''; '' reasons)"

definition eval_row ::
  "timestamp \<Rightarrow> job_card_table option \<Rightarrow> nat option \<Rightarrow> real option \<Rightarrow> real option \<Rightarrow> nat
     \<Rightarrow> timestamp option train \<Rightarrow> py_error + (evaluation \<times> nat)" where
  "eval_row today job_cards cleaning_capacity mileage_mean mileage_std used r =
     (case check_row today job_cards cleaning_capacity used r of
        (elig, reasons, used') \<Rightarrow>
          (case branding_of (branding_priority r) of
             Inl e \<Rightarrow> Inl e
           | Inr branding \<Rightarrow>
               (case mileage_of (mileage_last_week r) of
                  Inl e \<Rightarrow> Inl e
                | Inr mileage \<Rightarrow>
                    Inr (\<lparr> out_train_id = train_id r,
                           eligible = elig,
                           score = score_of mileage_mean mileage_std branding mileage,
                           reason = reason_text reasons,
                           out_branding_priority = branding,
                           out_mileage_last_week = mileage,
                           out_bay_position = bay_position r \<rparr>,
                         used'))))"

fun eval_rows ::
  "timestamp \<Rightarrow> job_card_table option \<Rightarrow> nat option \<Rightarrow> real option \<Rightarrow> real option \<Rightarrow> nat
     \<Rightarrow> timestamp option train list \<Rightarrow> py_error + evaluation list" where
  "eval_rows today job_cards cap mean std used [] = Inr []"
| "eval_rows today job_cards cap mean std used (r # rs) =
     (case eval_row today job_cards cap mean std used r of
        Inl e \<Rightarrow> Inl e
      | Inr (row, used') \<Rightarrow>
          (case eval_rows today job_cards cap mean std used' rs of
             Inl e \<Rightarrow> Inl e
           | Inr rows \<Rightarrow> Inr (row # rows)))"

definition evaluate ::
  "timestamp option train list \<Rightarrow> timestamp \<Rightarrow> job_card_table option \<Rightarrow> cleaning_table option
     \<Rightarrow> py_error + evaluation list" where
  "evaluate df today job_cards cleaning_slots =
     (let cleaning_capacity = cleaning_capacity_of cleaning_slots;
          cleaning_used = 0
      in case col_mean (map mileage_last_week df) of
           Inl e \<Rightarrow> Inl e
         | Inr mileage_mean \<Rightarrow>
             (case col_std (map mileage_last_week df) of
                Inl e \<Rightarrow> Inl e
              | Inr s \<Rightarrow>
                  let mileage_std = or_1 s
                  in eval_rows today job_cards cleaning_capacity mileage_mean mileage_std
                       cleaning_used df))"

text \<open>
  The counter \<^verbatim>\<open>cleaning_used\<close> after the loop has processed the rows \<open>rs\<close>,
  starting from \<open>used\<close>.
\<close>

definition cleaning_used_after ::
  "timestamp \<Rightarrow> job_card_table option \<Rightarrow> nat option \<Rightarrow> nat \<Rightarrow> timestamp option train list \<Rightarrow> nat" where
  "cleaning_used_after today job_cards cap used rs =
     fold (\<lambda>r u. snd (snd (check_row today job_cards cap u r))) rs used"

text \<open>
  The value of \<^verbatim>\<open>cleaning_used\<close> when the loop of \<^verbatim>\<open>evaluate\<close> reaches row \<open>i\<close>
  of the roster.
\<close>

definition cleaning_used_at ::
  "timestamp option train list \<Rightarrow> timestamp \<Rightarrow> job_card_table option \<Rightarrow> cleaning_table option
     \<Rightarrow> nat \<Rightarrow> nat" where
  "cleaning_used_at df today job_cards cleaning_slots i =
     cleaning_used_after today job_cards (cleaning_capacity_of cleaning_slots) 0 (take i df)"

text \<open>
  Whether the cleaning check lets a train through: there is no capacity limit, or the
  counter is still below it.
\<close>

definition slot_available :: "nat option \<Rightarrow> nat \<Rightarrow> bool" where
  "slot_available cap used = (case cap of None \<Rightarrow> True | Some c \<Rightarrow> used < c)"

section \<open>Rank and assign (lines 130 to 142)\<close>

text \<open>
  \<^verbatim>\<open>sort_values(by=["score"], ascending=False)\<close> puts NaN last. \<open>sorts_before x y\<close>
  says that the score \<open>x\<close> has to come before the score \<open>y\<close>. Rows of equal score keep
  their input order here.
\<close>

definition sorts_before :: "real option \<Rightarrow> real option \<Rightarrow> bool" where
  "sorts_before x y =
     (case x of None \<Rightarrow> False | Some a \<Rightarrow> (case y of None \<Rightarrow> True | Some b \<Rightarrow> b < a))"

fun insert_desc :: "evaluation \<Rightarrow> evaluation list \<Rightarrow> evaluation list" where
  "insert_desc x [] = [x]"
| "insert_desc x (y # ys) =
     (if sorts_before (score y) (score x) then y # insert_desc x ys else x # y # ys)"

fun sort_values_desc :: "evaluation list \<Rightarrow> evaluation list" where
  "sort_values_desc [] = []"
| "sort_values_desc (x # xs) = insert_desc x (sort_values_desc xs)"

definition with_assignment :: "assignment \<Rightarrow> evaluation \<Rightarrow> allocation" where
  "with_assignment a e = evaluation.extend e (allocation.fields a)"

text \<open>
  The three tables \<^verbatim>\<open>service\<close>, \<^verbatim>\<open>standby\<close> and \<^verbatim>\<open>remaining\<close>.
  \<^verbatim>\<open>evaluate\<close> ends with \<^verbatim>\<open>pd.DataFrame(rows)\<close>, and a data frame made of an empty
  list has no columns, so that \<^verbatim>\<open>evaluated["eligible"]\<close> on line 130 raises
  \<^verbatim>\<open>KeyError\<close> when the roster has no row.
\<close>

definition rank_and_assign ::
  "evaluation list \<Rightarrow> nat \<Rightarrow> nat
     \<Rightarrow> py_error + (allocation list \<times> allocation list \<times> allocation list)" where
  "rank_and_assign evaluated required_service_count standby_count =
     (if evaluated = [] then Inl KeyError
      else
        let eligible_df = sort_values_desc (filter eligible evaluated);
            ineligible_df = filter (\<lambda>e. \<not> eligible e) evaluated;
            service = map (with_assignment Service) (take required_service_count eligible_df);
            standby = map (with_assignment Standby)
                        (take standby_count (drop required_service_count eligible_df));
            remaining = map (with_assignment Maintenance_Blocked)
                          (drop (required_service_count + standby_count) eligible_df
                             @ ineligible_df)
        in Inr (service, standby, remaining))"

text \<open>\<^verbatim>\<open>result = pd.concat([service, standby, remaining])\<close>, from the roster on.\<close>

definition induction_plan ::
  "timestamp option train list \<Rightarrow> timestamp \<Rightarrow> job_card_table option \<Rightarrow> cleaning_table option
     \<Rightarrow> nat \<Rightarrow> nat \<Rightarrow> py_error + allocation list" where
  "induction_plan df today job_cards cleaning_slots required_service_count standby_count =
     (case evaluate df today job_cards cleaning_slots of
        Inl e \<Rightarrow> Inl e
      | Inr evaluated \<Rightarrow>
          (case rank_and_assign evaluated required_service_count standby_count of
             Inl e \<Rightarrow> Inl e
           | Inr (service, standby, remaining) \<Rightarrow> Inr (service @ standby @ remaining)))"

section \<open>The locals of the evaluation function as an explicit state\<close>

text \<open>
  A second reading of lines 64 to 119, in which the variables that \<^verbatim>\<open>evaluate\<close>
  assigns are fields of a state that the call receives and returns. It serves to show that
  the function reads none of them before it has assigned it.
\<close>

record eval_locals =
  l_rows :: "evaluation list"
  l_cleaning_capacity :: "nat option"
  l_cleaning_used :: nat
  l_mileage_mean :: "real option"
  l_mileage_std :: "real option"

definition loop_body ::
  "timestamp \<Rightarrow> job_card_table option \<Rightarrow> timestamp option train \<Rightarrow> eval_locals
     \<Rightarrow> py_error + eval_locals" where
  "loop_body today job_cards r s =
     (case eval_row today job_cards (l_cleaning_capacity s) (l_mileage_mean s) (l_mileage_std s)
             (l_cleaning_used s) r of
        Inl e \<Rightarrow> Inl e
      | Inr (row, used') \<Rightarrow> Inr (s\<lparr>l_cleaning_used := used', l_rows := l_rows s @ [row]\<rparr>))"

fun loop ::
  "timestamp \<Rightarrow> job_card_table option \<Rightarrow> timestamp option train list \<Rightarrow> eval_locals
     \<Rightarrow> py_error + eval_locals" where
  "loop today job_cards [] s = Inr s"
| "loop today job_cards (r # rs) s =
     (case loop_body today job_cards r s of
        Inl e \<Rightarrow> Inl e
      | Inr s' \<Rightarrow> loop today job_cards rs s')"

definition evaluate_st ::
  "eval_locals \<Rightarrow> timestamp option train list \<Rightarrow> timestamp \<Rightarrow> job_card_table option
     \<Rightarrow> cleaning_table option \<Rightarrow> py_error + (evaluation list \<times> eval_locals)" where
  "evaluate_st s0 df today job_cards cleaning_slots =
     (let s1 = s0\<lparr>l_rows := []\<rparr>;
          s2 = s1\<lparr>l_cleaning_capacity := None\<rparr>;
          s3 = (case cleaning_slots of
                  None \<Rightarrow> s2
                | Some t \<Rightarrow>
                    if has_available_col t
                    then s2\<lparr>l_cleaning_capacity := Some (length (filter available (cs_rows t)))\<rparr>
                    else s2);
          s4 = s3\<lparr>l_cleaning_used := 0\<rparr>
      in case col_mean (map mileage_last_week df) of
           Inl e \<Rightarrow> Inl e
         | Inr m \<Rightarrow>
             let s5 = s4\<lparr>l_mileage_mean := m\<rparr>
             in (case col_std (map mileage_last_week df) of
                   Inl e \<Rightarrow> Inl e
                 | Inr sd \<Rightarrow>
                     let s6 = s5\<lparr>l_mileage_std := or_1 sd\<rparr>
                     in (case loop today job_cards df s6 of
                           Inl e \<Rightarrow> Inl e
                         | Inr s7 \<Rightarrow> Inr (l_rows s7, s7))))"

section \<open>The statistics as the specification words them\<close>




section \<open>Notions used in the statements\<close>

text \<open>
  A train is still eligible when the loop reaches the cleaning check if neither the fitness
  check nor the job-card check has fired.
\<close>

definition pre_eligible :: "timestamp \<Rightarrow> job_card_table option \<Rightarrow> timestamp option train \<Rightarrow> bool" where
  "pre_eligible today jc r =
     (\<not> fitness_expired today (fitness_valid_until r) \<and> open_job_card jc r = None)"

text \<open>
  Python's \<^verbatim>\<open><\<close> on two scores: a comparison with NaN is false.
\<close>

definition score_less :: "real option \<Rightarrow> real option \<Rightarrow> bool" where
  "score_less x y =
     (case x of None \<Rightarrow> False | Some a \<Rightarrow> (case y of None \<Rightarrow> False | Some b \<Rightarrow> a < b))"


section \<open>Example inputs\<close>

definition mk_train :: "string \<Rightarrow> 'd \<Rightarrow> cell \<Rightarrow> cell \<Rightarrow> bool \<Rightarrow> 'd train" where
  "mk_train tid fit branding mileage cleaning =
     \<lparr> train_id = tid, fitness_valid_until = fit, job_card_open = False,
       branding_priority = branding, mileage_last_week = mileage,
       needs_cleaning = cleaning, bay_position = NaN \<rparr>"

definition mk_evaluation :: "string \<Rightarrow> bool \<Rightarrow> real option \<Rightarrow> string \<Rightarrow> int \<Rightarrow> real \<Rightarrow> evaluation" where
  "mk_evaluation tid elig sc rsn branding mileage =
     \<lparr> out_train_id = tid, eligible = elig, score = sc, reason = rsn,
       out_branding_priority = branding, out_mileage_last_week = mileage,
       out_bay_position = NaN \<rparr>"

text \<open>
  Three trains that all need cleaning, one job card and one available cleaning slot; the
  reference date is day 10.
\<close>

definition demo_roster :: "timestamp option train list" where
  "demo_roster =
     [mk_train ''TS01'' (Some 20) (Num 5) (Num 0) True,
      mk_train ''TS02'' None (Num 0) (Num 2) True,
      mk_train ''TS03'' (Some 12) (Num 1) (Num 4) True]"

definition demo_job_cards :: job_card_table where
  "demo_job_cards = \<lparr> has_severity_col = True,
      jc_rows = [\<lparr> jc_train_id = ''TS02'', job_card_id = ''JC-TS02'', severity = ''high'' \<rparr>] \<rparr>"

definition demo_slots :: cleaning_table where
  "demo_slots = \<lparr> has_available_col = True,
      cs_rows = [\<lparr> slot_id = ''CS1'', available = True, shift = ''night'' \<rparr>,
                 \<lparr> slot_id = ''CS2'', available = False, shift = ''night'' \<rparr>] \<rparr>"

definition demo_evaluated :: "evaluation list" where
  "demo_evaluated =
     [mk_evaluation ''TS01'' True (Some 5100) ''Needs cleaning'' 5 0,
      mk_evaluation ''TS02'' False (Some 0)
        ''Expired fitness; Open job-card (high); Needs cleaning'' 0 2,
      mk_evaluation ''TS03'' False (Some 900)
        ''Needs cleaning; No cleaning slot available'' 1 4]"

text \<open>
  Two trains and no available cleaning slot: the first train needs cleaning and its
  fitness certificate is missing.
\<close>

definition late_roster :: "timestamp option train list" where
  "late_roster =
     [mk_train ''TS01'' None (Num 0) (Num 0) True,
      mk_train ''TS02'' (Some 20) (Num 0) (Num 0) False]"

definition no_slots :: cleaning_table where
  "no_slots = \<lparr> has_available_col = True,
      cs_rows = [\<lparr> slot_id = ''CS1'', available = False, shift = ''night'' \<rparr>] \<rparr>"

definition late_evaluated :: "evaluation list" where
  "late_evaluated =
     [mk_evaluation ''TS01'' False (Some 0) ''Expired fitness; Needs cleaning'' 0 0,
      mk_evaluation ''TS02'' True (Some 0) ''OK'' 0 0]"



text \<open>The same slots in a table that has no \<^verbatim>\<open>available\<close> column.\<close>

definition unlisted_slots :: cleaning_table where
  "unlisted_slots = \<lparr> has_available_col = False,
      cs_rows = [\<lparr> slot_id = ''CS1'', available = False, shift = ''night'' \<rparr>] \<rparr>"

definition unlisted_evaluated :: "evaluation list" where
  "unlisted_evaluated =
     [mk_evaluation ''TS01'' True (Some 5100) ''Needs cleaning'' 5 0,
      mk_evaluation ''TS02'' False (Some 0)
        ''Expired fitness; Open job-card (high); Needs cleaning'' 0 2,
      mk_evaluation ''TS03'' True (Some 900) ''Needs cleaning'' 1 4]"

text \<open>Three trains to compare: equal mileage in the first two, equal branding in the last two.\<close>

definition score_roster :: "timestamp option train list" where
  "score_roster =
     [mk_train ''TS01'' (Some 20) (Num 3) (Num 100) False,
      mk_train ''TS02'' (Some 20) (Num 1) (Num 100) False,
      mk_train ''TS03'' (Some 20) (Num 1) (Num 400) False]"



text \<open>A roster of one train.\<close>

definition single_roster :: "timestamp option train list" where
  "single_roster = [mk_train ''TS01'' (Some 20) (Num 2) (Num 300) False]"

section \<open>Lemmas on the loop\<close>

lemmas evaluate_defs =
  evaluate_def cleaning_capacity_of_def col_mean_def col_std_def or_1_def eval_row_def
  check_row_def fitness_check_def fitness_expired_def job_card_check_def open_job_card_def
  severity_text_def cleaning_check_def branding_of_def mileage_of_def py_int_def score_of_def
  reason_text_def mk_train_def mk_evaluation_def Let_def

lemma eval_rows_length:
  "eval_rows t jc cap m s u rs = Inr out \<Longrightarrow> length out = length rs"
  by (induction rs arbitrary: u out) (auto split: sum.splits prod.splits)

lemma eval_row_used:
  "eval_row t jc cap m s u r = Inr (row, u') \<Longrightarrow> u' = snd (snd (check_row t jc cap u r))"
  by (auto simp: eval_row_def split: sum.splits prod.splits)

lemma eval_rows_nth:
  "eval_rows t jc cap m s u rs = Inr out \<Longrightarrow> i < length rs \<Longrightarrow>
   \<exists>u'. eval_row t jc cap m s (cleaning_used_after t jc cap u (take i rs)) (rs ! i) = Inr (out ! i, u')"
proof (induction rs arbitrary: u out i)
  case Nil
  then show ?case by simp
next
  case (Cons r rs)
  from Cons.prems(1) obtain row u1 rows where
    r: "eval_row t jc cap m s u r = Inr (row, u1)" and
    rs: "eval_rows t jc cap m s u1 rs = Inr rows" and
    out: "out = row # rows"
    by (auto split: sum.splits prod.splits)
  show ?case
  proof (cases i)
    case 0
    then show ?thesis using r out by (simp add: cleaning_used_after_def)
  next
    case (Suc k)
    then have "k < length rs" using Cons.prems(2) by simp
    from Cons.IH[OF rs this] obtain u' where
      "eval_row t jc cap m s (cleaning_used_after t jc cap u1 (take k rs)) (rs ! k) = Inr (rows ! k, u')"
      by blast
    moreover have "u1 = snd (snd (check_row t jc cap u r))" using r by (rule eval_row_used)
    ultimately show ?thesis using Suc out by (simp add: cleaning_used_after_def)
  qed
qed

lemma check_row_eligible:
  "fst (check_row today jc cap used r) =
     (pre_eligible today jc r \<and> (\<not> needs_cleaning r \<or> slot_available cap used))"
  by (auto simp: check_row_def fitness_check_def job_card_check_def cleaning_check_def
        pre_eligible_def slot_available_def split: option.splits)

lemma check_row_used:
  "snd (snd (check_row today jc cap used r)) =
     (if needs_cleaning r \<and> pre_eligible today jc r \<and> cap \<noteq> None \<and> slot_available cap used
      then used + 1 else used)"
  by (auto simp: check_row_def fitness_check_def job_card_check_def cleaning_check_def
        pre_eligible_def slot_available_def split: option.splits)

lemma check_row_reasons:
  "fst (snd (check_row today jc cap used r)) =
     (if fitness_expired today (fitness_valid_until r) then [''Expired fitness''] else [])
     @ (case open_job_card jc r of None \<Rightarrow> []
        | Some j \<Rightarrow> [''Open job-card ('' @ severity_text jc j @ '')''])
     @ (if needs_cleaning r then [''Needs cleaning''] else [])
     @ (if needs_cleaning r \<and> pre_eligible today jc r \<and> cap \<noteq> None \<and> \<not> slot_available cap used
        then [''No cleaning slot available''] else [])"
  by (auto simp: check_row_def fitness_check_def job_card_check_def cleaning_check_def
        pre_eligible_def slot_available_def split: option.splits)

lemma sublist_join: "s \<in> set rs \<Longrightarrow> sublist s (join sep rs)"
proof (induction sep rs rule: join.induct)
  case (3 sep x y zs)
  show ?case
  proof (cases "s = x")
    case True
    then show ?thesis by simp
  next
    case False
    with 3 have "sublist s (join sep (y # zs))" by simp
    then obtain ps ss where "join sep (y # zs) = ps @ s @ ss" by (auto simp: sublist_def)
    then have "join sep (x # y # zs) = (x @ sep @ ps) @ s @ ss" by simp
    then show ?thesis unfolding sublist_def by blast
  qed
qed simp_all

lemma sublist_reason_text:
  assumes "e \<in> set rs" "sublist s e"
  shows "sublist s (reason_text rs)"
proof -
  from assms(1) have "rs \<noteq> []" by auto
  moreover from assms(1) have "sublist e (join ''; '' rs)" by (rule sublist_join)
  then obtain ps ss where "join ''; '' rs = ps @ e @ ss" by (auto simp: sublist_def)
  moreover from assms(2) obtain p2 s2 where "e = p2 @ s @ s2" by (auto simp: sublist_def)
  ultimately have "reason_text rs = (ps @ p2) @ s @ (s2 @ ss)" by (simp add: reason_text_def)
  then show ?thesis unfolding sublist_def by blast
qed

lemma open_job_card_text: "sublist ''Open job-card'' (''Open job-card ('' @ sev @ '')'')"
proof -
  have "''Open job-card ('' @ sev @ '')'' = [] @ ''Open job-card'' @ ('' ('' @ sev @ '')'')" by simp
  then show ?thesis unfolding sublist_def by blast
qed

lemma fitness_expired_iff:
  "\<not> fitness_expired today d \<longleftrightarrow> (\<exists>t. d = Some t \<and> today \<le> t)"
  by (auto simp: fitness_expired_def split: option.splits)

lemma open_job_card_None_iff:
  "open_job_card jc r = None \<longleftrightarrow> (\<forall>t. jc = Some t \<longrightarrow> train_id r \<notin> jc_train_id ` set (jc_rows t))"
  by (auto simp: open_job_card_def find_None_iff image_iff split: option.splits)

lemma eval_row_fields:
  assumes "eval_row t jc cap m s u r = Inr (row, u')"
  shows "eligible row = fst (check_row t jc cap u r)"
    and "reason row = reason_text (fst (snd (check_row t jc cap u r)))"
    and "out_train_id row = train_id r"
    and "out_bay_position row = bay_position r"
    and "branding_of (branding_priority r) = Inr (out_branding_priority row)"
    and "mileage_of (mileage_last_week r) = Inr (out_mileage_last_week row)"
    and "score row = score_of m s (out_branding_priority row) (out_mileage_last_week row)"
  using assms by (auto simp: eval_row_def split: sum.splits prod.splits)

lemma evaluate_Inr:
  assumes "evaluate df today jc cs = Inr out"
  obtains m s where "col_mean (map mileage_last_week df) = Inr m"
    and "col_std (map mileage_last_week df) = Inr s"
    and "eval_rows today jc (cleaning_capacity_of cs) m (or_1 s) 0 df = Inr out"
  using assms by (auto simp: evaluate_def Let_def split: sum.splits)

lemma evaluate_nth:
  assumes "evaluate df today jc cs = Inr out" "i < length df"
  obtains m s u' where "col_mean (map mileage_last_week df) = Inr m"
    and "col_std (map mileage_last_week df) = Inr s"
    and "eval_row today jc (cleaning_capacity_of cs) m (or_1 s)
           (cleaning_used_at df today jc cs i) (df ! i) = Inr (out ! i, u')"
proof -
  from assms(1) obtain m s where ms: "col_mean (map mileage_last_week df) = Inr m"
    "col_std (map mileage_last_week df) = Inr s"
    "eval_rows today jc (cleaning_capacity_of cs) m (or_1 s) 0 df = Inr out"
    by (rule evaluate_Inr)
  from eval_rows_nth[OF ms(3) assms(2)] obtain u' where
    "eval_row today jc (cleaning_capacity_of cs) m (or_1 s)
       (cleaning_used_at df today jc cs i) (df ! i) = Inr (out ! i, u')"
    by (auto simp: cleaning_used_at_def)
  with ms(1,2) show thesis by (rule that)
qed

lemma evaluate_row_checks:
  assumes "evaluate df today jc cs = Inr out" and "i < length df"
  shows "eligible (out ! i) =
           fst (check_row today jc (cleaning_capacity_of cs) (cleaning_used_at df today jc cs i) (df ! i))"
    and "reason (out ! i) =
           reason_text (fst (snd (check_row today jc (cleaning_capacity_of cs)
                                    (cleaning_used_at df today jc cs i) (df ! i))))"
    and "out_train_id (out ! i) = train_id (df ! i)"
    and "out_bay_position (out ! i) = bay_position (df ! i)"
proof -
  from assms obtain m s u' where
    row: "eval_row today jc (cleaning_capacity_of cs) m (or_1 s)
            (cleaning_used_at df today jc cs i) (df ! i) = Inr (out ! i, u')"
    by (rule evaluate_nth)
  from eval_row_fields[OF row]
  show "eligible (out ! i) =
           fst (check_row today jc (cleaning_capacity_of cs) (cleaning_used_at df today jc cs i) (df ! i))"
    and "reason (out ! i) =
           reason_text (fst (snd (check_row today jc (cleaning_capacity_of cs)
                                    (cleaning_used_at df today jc cs i) (df ! i))))"
    and "out_train_id (out ! i) = train_id (df ! i)"
    and "out_bay_position (out ! i) = bay_position (df ! i)"
    by simp_all
qed

lemma expired_fitness_row:
  assumes "evaluate df today jc cs = Inr out" and "i < length df"
    and "fitness_expired today (fitness_valid_until (df ! i))"
  shows "\<not> eligible (out ! i) \<and> sublist ''Expired fitness'' (reason (out ! i))"
proof -
  let ?rs = "fst (snd (check_row today jc (cleaning_capacity_of cs)
                         (cleaning_used_at df today jc cs i) (df ! i)))"
  from assms(3) have "''Expired fitness'' \<in> set ?rs" by (simp add: check_row_reasons)
  then have "sublist ''Expired fitness'' (reason_text ?rs)"
    by (rule sublist_reason_text) simp
  moreover have "\<not> eligible (out ! i)"
    using assms(3)
    by (simp add: evaluate_row_checks(1)[OF assms(1,2)] check_row_eligible pre_eligible_def)
  ultimately show ?thesis by (simp add: evaluate_row_checks(2)[OF assms(1,2)])
qed

lemma demo_evaluate:
  "evaluate demo_roster 10 (Some demo_job_cards) (Some demo_slots) = Inr demo_evaluated"
  by (simp add: evaluate_defs demo_roster_def demo_job_cards_def demo_slots_def
        demo_evaluated_def)

lemma late_evaluate:
  "evaluate late_roster 10 None (Some no_slots) = Inr late_evaluated"
  by (simp add: evaluate_defs late_roster_def no_slots_def late_evaluated_def)

section \<open>Eligibility\<close>

text \<open>
  C2. Row \<open>i\<close> of the output of \<open>evaluate\<close> is the row of train \<open>i\<close> of the roster. It
  is eligible if and only if the fitness date of the train is present and not earlier than
  the reference date, no row of the job-card table (when one is supplied) carries its
  train id, and it needs no cleaning or the cleaning check lets it through: there is no
  capacity limit, or the counter of used slots, as it stands when the loop reaches the
  train, is below the capacity. A train whose fitness date is missing or earlier than the
  reference date is not eligible and its reason contains "Expired fitness"; a train with a
  row in the job-card table is not eligible and its reason contains "Open job-card".
\<close>

theorem eligible_iff_checks:
  assumes "evaluate df today job_cards cleaning_slots = Inr out" and "i < length df"
  shows "out_train_id (out ! i) = train_id (df ! i)
     \<and> (eligible (out ! i) \<longleftrightarrow>
          (\<exists>d. fitness_valid_until (df ! i) = Some d \<and> today \<le> d)
        \<and> (\<forall>t. job_cards = Some t \<longrightarrow> train_id (df ! i) \<notin> jc_train_id ` set (jc_rows t))
        \<and> (\<not> needs_cleaning (df ! i)
           \<or> slot_available (cleaning_capacity_of cleaning_slots)
                (cleaning_used_at df today job_cards cleaning_slots i)))
     \<and> ((fitness_valid_until (df ! i) = None \<or> the (fitness_valid_until (df ! i)) < today)
          \<longrightarrow> \<not> eligible (out ! i) \<and> sublist ''Expired fitness'' (reason (out ! i)))
     \<and> ((\<exists>t. job_cards = Some t \<and> train_id (df ! i) \<in> jc_train_id ` set (jc_rows t))
          \<longrightarrow> \<not> eligible (out ! i) \<and> sublist ''Open job-card'' (reason (out ! i)))"
proof -
  let ?r = "df ! i"
  let ?cap = "cleaning_capacity_of cleaning_slots"
  let ?u = "cleaning_used_at df today job_cards cleaning_slots i"
  let ?rs = "fst (snd (check_row today job_cards ?cap ?u ?r))"
  from assms obtain m s u' where
    row: "eval_row today job_cards ?cap m (or_1 s) ?u ?r = Inr (out ! i, u')"
    by (rule evaluate_nth)
  have el: "eligible (out ! i) = fst (check_row today job_cards ?cap ?u ?r)"
    and re: "reason (out ! i) = reason_text ?rs"
    and id: "out_train_id (out ! i) = train_id ?r"
    using eval_row_fields[OF row] by simp_all
  have fit: "\<not> fitness_expired today (fitness_valid_until ?r)
       \<longleftrightarrow> (\<exists>d. fitness_valid_until ?r = Some d \<and> today \<le> d)"
    by (rule fitness_expired_iff)
  have jc: "open_job_card job_cards ?r = None
       \<longleftrightarrow> (\<forall>t. job_cards = Some t \<longrightarrow> train_id ?r \<notin> jc_train_id ` set (jc_rows t))"
    by (rule open_job_card_None_iff)
  have iff: "eligible (out ! i) \<longleftrightarrow>
          (\<exists>d. fitness_valid_until ?r = Some d \<and> today \<le> d)
        \<and> (\<forall>t. job_cards = Some t \<longrightarrow> train_id ?r \<notin> jc_train_id ` set (jc_rows t))
        \<and> (\<not> needs_cleaning ?r \<or> slot_available ?cap ?u)"
    unfolding el check_row_eligible pre_eligible_def fit jc by blast
  have expired: "\<not> eligible (out ! i) \<and> sublist ''Expired fitness'' (reason (out ! i))"
    if "fitness_valid_until ?r = None \<or> the (fitness_valid_until ?r) < today"
  proof -
    from that have "fitness_expired today (fitness_valid_until ?r)"
      by (auto simp: fitness_expired_def split: option.splits)
    with assms show ?thesis by (rule expired_fitness_row)
  qed
  have card: "\<not> eligible (out ! i) \<and> sublist ''Open job-card'' (reason (out ! i))"
    if "\<exists>t. job_cards = Some t \<and> train_id ?r \<in> jc_train_id ` set (jc_rows t)"
  proof -
    from that have "open_job_card job_cards ?r \<noteq> None" unfolding jc by blast
    then obtain j where j: "open_job_card job_cards ?r = Some j" by blast
    then have "''Open job-card ('' @ severity_text job_cards j @ '')'' \<in> set ?rs"
      by (simp add: check_row_reasons)
    then have "sublist ''Open job-card'' (reason_text ?rs)"
      by (rule sublist_reason_text) (rule open_job_card_text)
    moreover have "\<not> eligible (out ! i)"
      using j by (simp add: el check_row_eligible pre_eligible_def)
    ultimately show ?thesis by (simp add: re)
  qed
  from id iff expired card show ?thesis by blast
qed


theorem eligible_iff_checks_witness:
  "evaluate demo_roster 10 (Some demo_job_cards) (Some demo_slots) = Inr demo_evaluated
   \<and> (1::nat) < length demo_roster
   \<and> fitness_valid_until (demo_roster ! 1) = None
   \<and> train_id (demo_roster ! 1) \<in> jc_train_id ` set (jc_rows demo_job_cards)
   \<and> out_train_id (demo_evaluated ! 1) = train_id (demo_roster ! 1)
   \<and> \<not> eligible (demo_evaluated ! 1)
   \<and> sublist ''Expired fitness'' (reason (demo_evaluated ! 1))
   \<and> sublist ''Open job-card'' (reason (demo_evaluated ! 1))"
proof -
  have len: "(1::nat) < length demo_roster" by (simp add: demo_roster_def)
  have fit: "fitness_valid_until (demo_roster ! 1) = None"
    by (simp add: demo_roster_def mk_train_def)
  have card: "train_id (demo_roster ! 1) \<in> jc_train_id ` set (jc_rows demo_job_cards)"
    by (simp add: demo_roster_def mk_train_def demo_job_cards_def)
  from eligible_iff_checks[OF demo_evaluate len] fit card demo_evaluate len
  show ?thesis by blast
qed

lemma cleaning_count:
  "eval_rows t jc (Some cap) m s u rs = Inr out \<Longrightarrow> u \<le> cap \<Longrightarrow>
   u + length (filter (\<lambda>(r, e). needs_cleaning r \<and> eligible e) (zip rs out)) \<le> cap"
proof (induction rs arbitrary: u out)
  case Nil
  then show ?case by simp
next
  case (Cons r rs)
  from Cons.prems(1) obtain row u1 rows where
    r: "eval_row t jc (Some cap) m s u r = Inr (row, u1)" and
    rs: "eval_rows t jc (Some cap) m s u1 rs = Inr rows" and
    out: "out = row # rows"
    by (auto split: sum.splits prod.splits)
  have el: "eligible row = fst (check_row t jc (Some cap) u r)"
    using eval_row_fields(1)[OF r] .
  have u1: "u1 = snd (snd (check_row t jc (Some cap) u r))"
    using r by (rule eval_row_used)
  show ?case
  proof (cases "needs_cleaning r \<and> eligible row")
    case True
    then have "u < cap" and "u1 = u + 1"
      using Cons.prems(2)
      by (auto simp: el u1 check_row_eligible check_row_used slot_available_def)
    with Cons.IH[OF rs] True out show ?thesis by simp
  next
    case False
    then have "u1 = u"
      by (auto simp: el u1 check_row_eligible check_row_used)
    with Cons.IH[OF rs] Cons.prems(2) False out show ?thesis by auto
  qed
qed

lemma cleaning_used_at_Suc:
  assumes "i < length df"
  shows "cleaning_used_at df today jc cs (Suc i) =
     snd (snd (check_row today jc (cleaning_capacity_of cs) (cleaning_used_at df today jc cs i) (df ! i)))"
  using assms by (simp add: cleaning_used_at_def cleaning_used_after_def take_Suc_conv_app_nth)

section \<open>Cleaning capacity\<close>

text \<open>
  C3, as amended. When the cleaning capacity is known, the number of trains that need
  cleaning and are eligible in the output is at most the capacity. The counter of used
  slots starts at 0 and goes through the roster in row order: it grows by one at each
  train that needs cleaning, has passed the fitness and job-card checks and finds the
  counter below the capacity, and stays as it is at every other train. A train that needs
  cleaning and is reached when the counter is no longer below the capacity is not eligible
  and its reason contains "Needs cleaning"; if it has passed the fitness and job-card
  checks, its reason contains "No cleaning slot available" as well.
\<close>

theorem cleaning_capacity_respected:
  assumes "evaluate df today job_cards cleaning_slots = Inr out"
    and "cleaning_capacity_of cleaning_slots = Some cap"
  shows "length (filter (\<lambda>(r, e). needs_cleaning r \<and> eligible e) (zip df out)) \<le> cap
     \<and> cleaning_used_at df today job_cards cleaning_slots 0 = 0
     \<and> (\<forall>i<length df.
          cleaning_used_at df today job_cards cleaning_slots (Suc i) =
            cleaning_used_at df today job_cards cleaning_slots i
            + (if needs_cleaning (df ! i)
                  \<and> (\<exists>d. fitness_valid_until (df ! i) = Some d \<and> today \<le> d)
                  \<and> (\<forall>t. job_cards = Some t \<longrightarrow> train_id (df ! i) \<notin> jc_train_id ` set (jc_rows t))
                  \<and> cleaning_used_at df today job_cards cleaning_slots i < cap
               then 1 else 0))
     \<and> (\<forall>i<length df.
          needs_cleaning (df ! i) \<and> cap \<le> cleaning_used_at df today job_cards cleaning_slots i
          \<longrightarrow> \<not> eligible (out ! i)
            \<and> sublist ''Needs cleaning'' (reason (out ! i))
            \<and> ((\<exists>d. fitness_valid_until (df ! i) = Some d \<and> today \<le> d)
               \<and> (\<forall>t. job_cards = Some t \<longrightarrow> train_id (df ! i) \<notin> jc_train_id ` set (jc_rows t))
               \<longrightarrow> sublist ''No cleaning slot available'' (reason (out ! i))))"
proof -
  let ?cs = cleaning_slots
  let ?used = "cleaning_used_at df today job_cards ?cs"
  have pre: "pre_eligible today job_cards r \<longleftrightarrow>
       (\<exists>d. fitness_valid_until r = Some d \<and> today \<le> d)
     \<and> (\<forall>t. job_cards = Some t \<longrightarrow> train_id r \<notin> jc_train_id ` set (jc_rows t))" for r
    by (simp add: pre_eligible_def fitness_expired_iff open_job_card_None_iff)
  from assms(1) obtain m s where
    "eval_rows today job_cards (cleaning_capacity_of ?cs) m (or_1 s) 0 df = Inr out"
    by (rule evaluate_Inr)
  then have "eval_rows today job_cards (Some cap) m (or_1 s) 0 df = Inr out"
    by (simp add: assms(2))
  from cleaning_count[OF this]
  have count: "length (filter (\<lambda>(r, e). needs_cleaning r \<and> eligible e) (zip df out)) \<le> cap"
    by simp
  have zero: "?used 0 = 0"
    by (simp add: cleaning_used_at_def cleaning_used_after_def)
  have step: "?used (Suc i) = ?used i
            + (if needs_cleaning (df ! i)
                  \<and> (\<exists>d. fitness_valid_until (df ! i) = Some d \<and> today \<le> d)
                  \<and> (\<forall>t. job_cards = Some t \<longrightarrow> train_id (df ! i) \<notin> jc_train_id ` set (jc_rows t))
                  \<and> ?used i < cap
               then 1 else 0)" if "i < length df" for i
  proof -
    have "?used (Suc i) = ?used i
            + (if needs_cleaning (df ! i) \<and> pre_eligible today job_cards (df ! i) \<and> ?used i < cap
               then 1 else 0)"
      by (simp add: cleaning_used_at_Suc[OF that] check_row_used assms(2) slot_available_def)
    then show ?thesis by (simp only: pre conj_assoc)
  qed
  have late: "\<not> eligible (out ! i)
            \<and> sublist ''Needs cleaning'' (reason (out ! i))
            \<and> ((\<exists>d. fitness_valid_until (df ! i) = Some d \<and> today \<le> d)
               \<and> (\<forall>t. job_cards = Some t \<longrightarrow> train_id (df ! i) \<notin> jc_train_id ` set (jc_rows t))
               \<longrightarrow> sublist ''No cleaning slot available'' (reason (out ! i)))"
    if i: "i < length df" and nc: "needs_cleaning (df ! i)" and full: "cap \<le> ?used i" for i
  proof -
    let ?rs = "fst (snd (check_row today job_cards (Some cap) (?used i) (df ! i)))"
    from assms(1) i obtain m s u' where
      row: "eval_row today job_cards (cleaning_capacity_of ?cs) m (or_1 s) (?used i) (df ! i)
              = Inr (out ! i, u')"
      by (rule evaluate_nth)
    have el: "eligible (out ! i) = fst (check_row today job_cards (Some cap) (?used i) (df ! i))"
      and re: "reason (out ! i) = reason_text ?rs"
      using eval_row_fields[OF row] by (simp_all add: assms(2))
    have "\<not> eligible (out ! i)"
      using nc full by (simp add: el check_row_eligible slot_available_def)
    moreover have "''Needs cleaning'' \<in> set ?rs"
      using nc by (simp add: check_row_reasons)
    then have "sublist ''Needs cleaning'' (reason (out ! i))"
      unfolding re by (rule sublist_reason_text) simp
    moreover have "sublist ''No cleaning slot available'' (reason (out ! i))"
      if "pre_eligible today job_cards (df ! i)"
    proof -
      have "''No cleaning slot available'' \<in> set ?rs"
        using nc full that by (simp add: check_row_reasons slot_available_def)
      then show ?thesis unfolding re by (rule sublist_reason_text) simp
    qed
    ultimately show ?thesis unfolding pre by blast
  qed
  from count zero step late show ?thesis by blast
qed

lemma demo_used_at_2:
  "cleaning_used_at demo_roster 10 (Some demo_job_cards) (Some demo_slots) 2 = 1"
  by (simp add: cleaning_used_at_def cleaning_used_after_def evaluate_defs demo_roster_def
        demo_job_cards_def demo_slots_def numeral_2_eq_2)

theorem cleaning_capacity_respected_witness:
  "evaluate demo_roster 10 (Some demo_job_cards) (Some demo_slots) = Inr demo_evaluated
   \<and> cleaning_capacity_of (Some demo_slots) = Some 1
   \<and> (2::nat) < length demo_roster
   \<and> needs_cleaning (demo_roster ! 2)
   \<and> 1 \<le> cleaning_used_at demo_roster 10 (Some demo_job_cards) (Some demo_slots) 2
   \<and> length (filter (\<lambda>(r, e). needs_cleaning r \<and> eligible e) (zip demo_roster demo_evaluated)) \<le> 1
   \<and> \<not> eligible (demo_evaluated ! 2)
   \<and> sublist ''Needs cleaning'' (reason (demo_evaluated ! 2))
   \<and> sublist ''No cleaning slot available'' (reason (demo_evaluated ! 2))"
proof -
  have cap: "cleaning_capacity_of (Some demo_slots) = Some 1"
    by (simp add: cleaning_capacity_of_def demo_slots_def)
  have len: "(2::nat) < length demo_roster" by (simp add: demo_roster_def)
  have nc: "needs_cleaning (demo_roster ! 2)" by (simp add: demo_roster_def mk_train_def)
  have fit: "\<exists>d. fitness_valid_until (demo_roster ! 2) = Some d \<and> 10 \<le> d"
    by (simp add: demo_roster_def mk_train_def)
  have card: "\<forall>t. Some demo_job_cards = Some t
                \<longrightarrow> train_id (demo_roster ! 2) \<notin> jc_train_id ` set (jc_rows t)"
    by (simp add: demo_roster_def mk_train_def demo_job_cards_def)
  have used: "1 \<le> cleaning_used_at demo_roster 10 (Some demo_job_cards) (Some demo_slots) 2"
    by (simp add: demo_used_at_2)
  from cleaning_capacity_respected[OF demo_evaluate cap] len nc fit card used demo_evaluate cap
  show ?thesis by blast
qed


text \<open>
  The claim C3 as it is worded does not hold: in \<open>late_roster\<close> the first train needs
  cleaning and meets a capacity of 0, but its fitness check has already failed, so the
  guard of line 97 keeps "No cleaning slot available" out of its reason.
\<close>

theorem no_slot_reason_counterexample:
  "cleaning_capacity_of (Some no_slots) = Some 0
   \<and> needs_cleaning (late_roster ! 0)
   \<and> cleaning_used_at late_roster 10 None (Some no_slots) 0 = 0
   \<and> evaluate late_roster 10 None (Some no_slots) = Inr late_evaluated
   \<and> reason (late_evaluated ! 0) = ''Expired fitness; Needs cleaning''
   \<and> \<not> sublist ''No cleaning slot available'' (reason (late_evaluated ! 0))"
proof -
  have s: "\<not> sublist ''No cleaning slot available'' ''Expired fitness; Needs cleaning''"
    by code_simp
  have cap: "cleaning_capacity_of (Some no_slots) = Some 0"
    by (simp add: cleaning_capacity_of_def no_slots_def)
  have nc: "needs_cleaning (late_roster ! 0)" by (simp add: late_roster_def mk_train_def)
  have used: "cleaning_used_at late_roster 10 None (Some no_slots) 0 = 0"
    by (simp add: cleaning_used_at_def cleaning_used_after_def)
  have re: "reason (late_evaluated ! 0) = ''Expired fitness; Needs cleaning''"
    by (simp add: late_evaluated_def mk_evaluation_def)
  from s cap nc used re late_evaluate show ?thesis by simp
qed

lemma eval_rows_total:
  assumes "\<forall>r\<in>set rs. \<not> is_text (branding_priority r) \<and> \<not> is_text (mileage_last_week r)"
  shows "\<exists>out. eval_rows t jc cap m s u rs = Inr out"
  using assms
proof (induction rs arbitrary: u)
  case Nil
  then show ?case by simp
next
  case (Cons r rs)
  then have "\<not> is_text (branding_priority r)" "\<not> is_text (mileage_last_week r)" by simp_all
  then obtain row u1 where "eval_row t jc cap m s u r = Inr (row, u1)"
    by (cases "branding_priority r"; cases "mileage_last_week r";
        cases "check_row t jc cap u r")
       (auto simp: eval_row_def branding_of_def mileage_of_def)
  moreover from Cons obtain rows where "eval_rows t jc cap m s u1 rs = Inr rows"
    by fastforce
  ultimately show ?case by simp
qed

lemma evaluate_total:
  assumes "\<forall>r\<in>set df. \<not> is_text (branding_priority r) \<and> \<not> is_text (mileage_last_week r)"
  shows "\<exists>out. evaluate df today jc cs = Inr out \<and> length out = length df"
proof -
  from assms have nt: "\<not> list_ex is_text (map mileage_last_week df)"
    by (simp add: list_ex_iff)
  then obtain m s where ms: "col_mean (map mileage_last_week df) = Inr m"
    "col_std (map mileage_last_week df) = Inr s"
    by (simp add: col_mean_def col_std_def Let_def)
  from eval_rows_total[OF assms] obtain out where
    out: "eval_rows today jc (cleaning_capacity_of cs) m (or_1 s) 0 df = Inr out"
    by blast
  then have "evaluate df today jc cs = Inr out" using ms by (simp add: evaluate_def)
  moreover have "length out = length df" using out by (rule eval_rows_length)
  ultimately show ?thesis by blast
qed

section \<open>Unparsable fitness dates\<close>



lemma no_slot_text_absent:
  "\<not> sublist ''No cleaning slot available''
       (reason_text ((if e then [''Expired fitness''] else [])
                     @ [] @ (if c then [''Needs cleaning''] else [])))"
proof -
  have "\<not> sublist ''No cleaning slot available'' ''OK''" by code_simp
  moreover have "\<not> sublist ''No cleaning slot available'' ''Expired fitness''" by code_simp
  moreover have "\<not> sublist ''No cleaning slot available'' ''Needs cleaning''" by code_simp
  moreover have "\<not> sublist ''No cleaning slot available'' ''Expired fitness; Needs cleaning''"
    by code_simp
  ultimately show ?thesis by (cases e; cases c) (simp_all add: reason_text_def)
qed

section \<open>A cleaning-slot table without the column of available slots\<close>

text \<open>
  C10. When a cleaning-slot table is supplied that has no \<^verbatim>\<open>available\<close> column, the
  capacity is unknown, not zero. The reasons of every train are then, in this order,
  "Expired fitness" if its fitness check failed, the job-card reason if it has a job card,
  and "Needs cleaning" if it needs cleaning: "No cleaning slot available" is never among
  them (and, for a train without a job card, occurs nowhere in the reason text). A train
  that needs cleaning has "Needs cleaning" in its reason, and a train is eligible if and
  only if it passes the fitness and job-card checks.
\<close>

theorem no_available_column:
  assumes "cleaning_slots = Some t" and "\<not> has_available_col t"
    and "evaluate df today job_cards cleaning_slots = Inr out" and "i < length df"
  shows "cleaning_capacity_of cleaning_slots = None
     \<and> reason (out ! i) =
         reason_text
           ((if fitness_expired today (fitness_valid_until (df ! i))
             then [''Expired fitness''] else [])
            @ (case open_job_card job_cards (df ! i) of
                 None \<Rightarrow> []
               | Some j \<Rightarrow> [''Open job-card ('' @ severity_text job_cards j @ '')''])
            @ (if needs_cleaning (df ! i) then [''Needs cleaning''] else []))
     \<and> (open_job_card job_cards (df ! i) = None
          \<longrightarrow> \<not> sublist ''No cleaning slot available'' (reason (out ! i)))
     \<and> (needs_cleaning (df ! i) \<longrightarrow> sublist ''Needs cleaning'' (reason (out ! i)))
     \<and> (eligible (out ! i) \<longleftrightarrow>
          (\<exists>d. fitness_valid_until (df ! i) = Some d \<and> today \<le> d)
        \<and> (\<forall>t. job_cards = Some t \<longrightarrow> train_id (df ! i) \<notin> jc_train_id ` set (jc_rows t)))"
proof -
  let ?r = "df ! i"
  let ?u = "cleaning_used_at df today job_cards cleaning_slots i"
  let ?rs = "fst (snd (check_row today job_cards None ?u ?r))"
  have cap: "cleaning_capacity_of cleaning_slots = None"
    using assms(1,2) by (simp add: cleaning_capacity_of_def)
  have el: "eligible (out ! i) = fst (check_row today job_cards None ?u ?r)"
    and re: "reason (out ! i) = reason_text ?rs"
    using evaluate_row_checks(1,2)[OF assms(3,4)] by (simp_all add: cap)
  have rs: "?rs = (if fitness_expired today (fitness_valid_until ?r)
             then [''Expired fitness''] else [])
            @ (case open_job_card job_cards ?r of
                 None \<Rightarrow> []
               | Some j \<Rightarrow> [''Open job-card ('' @ severity_text job_cards j @ '')''])
            @ (if needs_cleaning ?r then [''Needs cleaning''] else [])"
    by (simp add: check_row_reasons)
  have absent: "\<not> sublist ''No cleaning slot available'' (reason (out ! i))"
    if "open_job_card job_cards ?r = None"
    unfolding re rs that using no_slot_text_absent by simp
  have needs: "sublist ''Needs cleaning'' (reason (out ! i))" if "needs_cleaning ?r"
  proof -
    from that have "''Needs cleaning'' \<in> set ?rs" by (simp add: rs)
    then show ?thesis unfolding re by (rule sublist_reason_text) simp
  qed
  have iff: "eligible (out ! i) \<longleftrightarrow>
          (\<exists>d. fitness_valid_until ?r = Some d \<and> today \<le> d)
        \<and> (\<forall>t. job_cards = Some t \<longrightarrow> train_id ?r \<notin> jc_train_id ` set (jc_rows t))"
    by (simp add: el check_row_eligible slot_available_def pre_eligible_def
          fitness_expired_iff open_job_card_None_iff)
  from cap re rs absent needs iff show ?thesis by simp
qed


lemma unlisted_evaluate:
  "evaluate demo_roster 10 (Some demo_job_cards) (Some unlisted_slots) = Inr unlisted_evaluated"
  by (simp add: evaluate_defs demo_roster_def demo_job_cards_def unlisted_slots_def
        unlisted_evaluated_def)

theorem no_available_column_witness:
  "\<not> has_available_col unlisted_slots
   \<and> evaluate demo_roster 10 (Some demo_job_cards) (Some unlisted_slots) = Inr unlisted_evaluated
   \<and> (2::nat) < length demo_roster
   \<and> needs_cleaning (demo_roster ! 2)
   \<and> open_job_card (Some demo_job_cards) (demo_roster ! 2) = None
   \<and> cleaning_capacity_of (Some unlisted_slots) = None
   \<and> \<not> sublist ''No cleaning slot available'' (reason (unlisted_evaluated ! 2))
   \<and> sublist ''Needs cleaning'' (reason (unlisted_evaluated ! 2))
   \<and> eligible (unlisted_evaluated ! 2)"
proof -
  have col: "\<not> has_available_col unlisted_slots" by (simp add: unlisted_slots_def)
  have len: "(2::nat) < length demo_roster" by (simp add: demo_roster_def)
  have nc: "needs_cleaning (demo_roster ! 2)" by (simp add: demo_roster_def mk_train_def)
  have card: "open_job_card (Some demo_job_cards) (demo_roster ! 2) = None"
    by (simp add: open_job_card_def demo_roster_def mk_train_def demo_job_cards_def)
  have fit: "\<exists>d. fitness_valid_until (demo_roster ! 2) = Some d \<and> 10 \<le> d"
    by (simp add: demo_roster_def mk_train_def)
  have nojc: "\<forall>t. Some demo_job_cards = Some t
                \<longrightarrow> train_id (demo_roster ! 2) \<notin> jc_train_id ` set (jc_rows t)"
    by (simp add: demo_roster_def mk_train_def demo_job_cards_def)
  from no_available_column[OF refl col unlisted_evaluate len] col len nc card fit nojc
    unlisted_evaluate
  show ?thesis by blast
qed

lemma eval_row_job_card_open:
  "eval_row t jc cap m s u (r\<lparr>job_card_open := x\<rparr>) = eval_row t jc cap m s u r"
proof -
  have "fitness_check t (r\<lparr>job_card_open := x\<rparr>) st = fitness_check t r st" for st
    by (cases st) (simp add: fitness_check_def)
  moreover have "open_job_card jc (r\<lparr>job_card_open := x\<rparr>) = open_job_card jc r"
    by (simp add: open_job_card_def split: option.splits)
  then have "job_card_check jc (r\<lparr>job_card_open := x\<rparr>) st = job_card_check jc r st" for st
    by (cases st) (simp add: job_card_check_def)
  moreover have "cleaning_check cap (r\<lparr>job_card_open := x\<rparr>) st = cleaning_check cap r st" for st
    by (cases st) (simp add: cleaning_check_def)
  ultimately have "check_row t jc cap u (r\<lparr>job_card_open := x\<rparr>) = check_row t jc cap u r"
    by (simp add: check_row_def)
  then show ?thesis
    by (simp add: eval_row_def split: prod.splits sum.splits)
qed

lemma eval_rows_job_card_open:
  assumes "list_all2 (\<lambda>a b. b = a\<lparr>job_card_open := job_card_open b\<rparr>) df1 df2"
  shows "eval_rows t jc cap m s u df1 = eval_rows t jc cap m s u df2"
  using assms
proof (induction df1 df2 arbitrary: u rule: list_all2_induct)
  case Nil
  show ?case by simp
next
  case (Cons a df1 b df2)
  from Cons.hyps(1) have "eval_row t jc cap m s u b = eval_row t jc cap m s u a"
    by (metis eval_row_job_card_open)
  with Cons.IH show ?case by (simp split: sum.splits prod.splits)
qed

lemma mileage_column_job_card_open:
  assumes "list_all2 (\<lambda>a b. b = a\<lparr>job_card_open := job_card_open b\<rparr>) df1 df2"
  shows "map mileage_last_week df1 = map mileage_last_week df2"
  using assms
proof (induction df1 df2 rule: list_all2_induct)
  case Nil
  show ?case by simp
next
  case (Cons a df1 b df2)
  from Cons.hyps(1) have "mileage_last_week b = mileage_last_week a"
    by (metis train.select_convs(5) train.surjective train.update_convs(3))
  with Cons.IH show ?case by simp
qed

section \<open>The column \<^verbatim>\<open>job_card_open\<close>\<close>

text \<open>
  C8. Two rosters that differ only in the values of the \<^verbatim>\<open>job_card_open\<close> column
  give the same result of \<open>evaluate\<close>, be it a table or an error, for the same reference
  date, job-card table and cleaning-slot table.
\<close>

theorem job_card_open_noninterference:
  assumes "list_all2 (\<lambda>a b. b = a\<lparr>job_card_open := job_card_open b\<rparr>) df1 df2"
  shows "evaluate df1 today job_cards cleaning_slots = evaluate df2 today job_cards cleaning_slots"
  unfolding evaluate_def Let_def
  by (simp add: mileage_column_job_card_open[OF assms] eval_rows_job_card_open[OF assms]
        cong: sum.case_cong)

theorem job_card_open_noninterference_witness:
  "list_all2 (\<lambda>a b. b = a\<lparr>job_card_open := job_card_open b\<rparr>)
     demo_roster (map (\<lambda>r. r\<lparr>job_card_open := True\<rparr>) demo_roster)
   \<and> job_card_open (demo_roster ! 0) \<noteq> job_card_open (map (\<lambda>r. r\<lparr>job_card_open := True\<rparr>) demo_roster ! 0)
   \<and> evaluate (map (\<lambda>r. r\<lparr>job_card_open := True\<rparr>) demo_roster) 10
        (Some demo_job_cards) (Some demo_slots) = Inr demo_evaluated"
proof -
  have a: "list_all2 (\<lambda>a b. b = a\<lparr>job_card_open := job_card_open b\<rparr>)
     demo_roster (map (\<lambda>r. r\<lparr>job_card_open := True\<rparr>) demo_roster)"
    by (simp add: demo_roster_def mk_train_def)
  have b: "job_card_open (demo_roster ! 0)
           \<noteq> job_card_open (map (\<lambda>r. r\<lparr>job_card_open := True\<rparr>) demo_roster ! 0)"
    by (simp add: demo_roster_def mk_train_def)
  from job_card_open_noninterference[OF a, of 10 "Some demo_job_cards" "Some demo_slots"]
    demo_evaluate a b
  show ?thesis by simp
qed

lemma evaluate_row_score:
  assumes "evaluate df today jc cs = Inr out" and "i < length df"
  obtains m s where "col_mean (map mileage_last_week df) = Inr m"
    and "col_std (map mileage_last_week df) = Inr s"
    and "branding_of (branding_priority (df ! i)) = Inr (out_branding_priority (out ! i))"
    and "mileage_of (mileage_last_week (df ! i)) = Inr (out_mileage_last_week (out ! i))"
    and "score (out ! i) =
           score_of m (or_1 s) (out_branding_priority (out ! i)) (out_mileage_last_week (out ! i))"
proof -
  from assms obtain m s u' where ms: "col_mean (map mileage_last_week df) = Inr m"
    "col_std (map mileage_last_week df) = Inr s"
    and row: "eval_row today jc (cleaning_capacity_of cs) m (or_1 s)
           (cleaning_used_at df today jc cs i) (df ! i) = Inr (out ! i, u')"
    by (rule evaluate_nth)
  from ms eval_row_fields(5,6,7)[OF row] show thesis by (rule that)
qed

lemma col_mean_Inr:
  assumes "col_mean col = Inr m"
  shows "m = (if numeric_values col = [] then None
              else Some (sum_list (numeric_values col) / real (length (numeric_values col))))"
  using assms by (simp add: col_mean_def Let_def split: if_splits)

lemma col_std_Inr:
  assumes "col_std col = Inr s"
  shows "s = (if length (numeric_values col) < 2 then None
              else Some (sqrt (sum_list (map (\<lambda>x. (x - sum_list (numeric_values col)
                                                      / real (length (numeric_values col)))\<^sup>2)
                                           (numeric_values col))
                               / real (length (numeric_values col) - 1))))"
  using assms by (simp add: col_std_def Let_def split: if_splits)

lemma or_1_positive:
  assumes "col_std col = Inr sd" and "or_1 sd = Some s"
  shows "0 < s"
proof -
  let ?xs = "numeric_values col"
  let ?m = "sum_list ?xs / real (length ?xs)"
  let ?v = "sum_list (map (\<lambda>x. (x - ?m)\<^sup>2) ?xs) / real (length ?xs - 1)"
  from assms(2) have "sd \<noteq> None" by (auto simp: or_1_def split: option.splits)
  with col_std_Inr[OF assms(1)] have sd: "sd = Some (sqrt ?v)" by (simp split: if_splits)
  define q where "q = sqrt ?v"
  have "0 \<le> sum_list (map (\<lambda>x. (x - ?m)\<^sup>2) ?xs)" by (rule sum_list_nonneg) auto
  then have "0 \<le> q" unfolding q_def by simp
  moreover have "sd = Some q" using sd by (simp only: q_def)
  with assms(2) have "s = (if q = 0 then 1 else q)"
    by (auto simp: or_1_def split: if_splits)
  ultimately show ?thesis by (cases "q = 0") simp_all
qed

lemma py_int_mono:
  assumes "b \<le> a"
  shows "py_int b \<le> py_int a"
proof (cases "0 \<le> b")
  case True
  with assms have "0 \<le> a" by simp
  with True assms show ?thesis by (simp add: py_int_def floor_mono)
next
  case False
  show ?thesis
  proof (cases "0 \<le> a")
    case True
    have "\<lceil>b\<rceil> \<le> 0" using False by simp
    moreover have "0 \<le> \<lfloor>a\<rfloor>" using True by simp
    moreover have "py_int b = \<lceil>b\<rceil>" using False by (simp add: py_int_def)
    moreover have "py_int a = \<lfloor>a\<rfloor>" using True by (simp add: py_int_def)
    ultimately show ?thesis by linarith
  next
    case False
    with \<open>\<not> 0 \<le> b\<close> assms show ?thesis by (simp add: py_int_def ceiling_mono)
  qed
qed

lemma statistics_defined:
  assumes "col_mean col = Inr m" and "col_std col = Inr sd"
    and "2 \<le> length (numeric_values col)"
  shows "\<exists>mean s. m = Some mean \<and> or_1 sd = Some s"
proof -
  from assms(3) have "numeric_values col \<noteq> []" by auto
  with col_mean_Inr[OF assms(1)] have "m \<noteq> None" by simp
  moreover from col_std_Inr[OF assms(2)] assms(3) have "sd \<noteq> None" by simp
  then have "or_1 sd \<noteq> None" by (auto simp: or_1_def split: option.splits)
  ultimately show ?thesis by auto
qed

lemma score_of_mono_branding:
  assumes "b2 \<le> b1" 
  shows "\<not> score_less (score_of m s b1 x) (score_of m s b2 x)"
  using assms by (cases m; cases s) (simp_all add: score_less_def score_of_def)

lemma score_of_mono_mileage:
  assumes "x2 \<le> x1" and "\<And>sv. s = Some sv \<Longrightarrow> 0 < sv"
  shows "\<not> score_less (score_of m s b x2) (score_of m s b x1)"
proof (cases m)
  case None
  then show ?thesis by (simp add: score_less_def score_of_def)
next
  case (Some mean)
  show ?thesis
  proof (cases s)
    case None
    then show ?thesis using Some by (simp add: score_less_def score_of_def)
  next
    case (Some sv)
    then have "0 < sv" by (rule assms(2))
    define n1 where "n1 = (x1 - mean) / sv"
    define n2 where "n2 = (x2 - mean) / sv"
    from assms(1) \<open>0 < sv\<close> have "n2 \<le> n1"
      unfolding n1_def n2_def by (simp add: divide_right_mono)
    then have "\<not> real_of_int b * 1000 - n2 * 100 < real_of_int b * 1000 - n1 * 100"
      by linarith
    then show ?thesis using Some \<open>m = Some mean\<close>
      unfolding score_less_def score_of_def Let_def n1_def n2_def by simp
  qed
qed

section \<open>Score monotonicity\<close>

text \<open>
  C6. Take two trains \<open>i\<close> and \<open>j\<close> of one run of \<open>evaluate\<close>. If their mileage
  cells are equal and the branding priority of \<open>i\<close> is at least that of \<open>j\<close>, the
  score of \<open>i\<close> is not lower than the score of \<open>j\<close>. If their branding cells are equal
  and the mileage of \<open>i\<close> is at least that of \<open>j\<close>, the score of \<open>i\<close> is not higher
  than the score of \<open>j\<close>. "Lower" is Python's \<^verbatim>\<open><\<close> on floats. As soon as two
  trains of the roster have a numeric mileage, both scores are numbers, so that "not
  lower" is "greater or equal".
\<close>

theorem score_monotone:
  assumes "evaluate df today job_cards cleaning_slots = Inr out"
    and "i < length df" and "j < length df"
  shows "(mileage_last_week (df ! i) = mileage_last_week (df ! j)
          \<and> branding_priority (df ! i) = Num a \<and> branding_priority (df ! j) = Num b \<and> b \<le> a
          \<longrightarrow> \<not> score_less (score (out ! i)) (score (out ! j)))
     \<and> (branding_priority (df ! i) = branding_priority (df ! j)
          \<and> mileage_last_week (df ! i) = Num a \<and> mileage_last_week (df ! j) = Num b \<and> b \<le> a
          \<longrightarrow> \<not> score_less (score (out ! j)) (score (out ! i)))
     \<and> (2 \<le> length (numeric_values (map mileage_last_week df))
          \<longrightarrow> (\<exists>x y. score (out ! i) = Some x \<and> score (out ! j) = Some y))"
proof -
  from assms(1,2) obtain m s where
    m: "col_mean (map mileage_last_week df) = Inr m" and
    s: "col_std (map mileage_last_week df) = Inr s" and
    bi: "branding_of (branding_priority (df ! i)) = Inr (out_branding_priority (out ! i))" and
    xi: "mileage_of (mileage_last_week (df ! i)) = Inr (out_mileage_last_week (out ! i))" and
    si: "score (out ! i) =
           score_of m (or_1 s) (out_branding_priority (out ! i)) (out_mileage_last_week (out ! i))"
    by (rule evaluate_row_score)
  from assms(1,3) obtain m' s' where
    m': "col_mean (map mileage_last_week df) = Inr m'" and
    s': "col_std (map mileage_last_week df) = Inr s'" and
    bj: "branding_of (branding_priority (df ! j)) = Inr (out_branding_priority (out ! j))" and
    xj: "mileage_of (mileage_last_week (df ! j)) = Inr (out_mileage_last_week (out ! j))" and
    sj': "score (out ! j) =
           score_of m' (or_1 s') (out_branding_priority (out ! j)) (out_mileage_last_week (out ! j))"
    by (rule evaluate_row_score)
  from m m' s s' sj' have
    sj: "score (out ! j) =
           score_of m (or_1 s) (out_branding_priority (out ! j)) (out_mileage_last_week (out ! j))"
    by simp
  have pos: "0 < sv" if "or_1 s = Some sv" for sv
    using s that by (rule or_1_positive)
  have branding: "\<not> score_less (score (out ! i)) (score (out ! j))"
    if "mileage_last_week (df ! i) = mileage_last_week (df ! j)"
      and "branding_priority (df ! i) = Num a" and "branding_priority (df ! j) = Num b"
      and "b \<le> a"
  proof -
    from that(1) xi xj have "out_mileage_last_week (out ! i) = out_mileage_last_week (out ! j)"
      by simp
    moreover from that(2,3) bi bj have "out_branding_priority (out ! i) = py_int a"
      "out_branding_priority (out ! j) = py_int b"
      by (simp_all add: branding_of_def)
    moreover from that(4) have "py_int b \<le> py_int a" by (rule py_int_mono)
    ultimately show ?thesis unfolding si sj by (simp add: score_of_mono_branding)
  qed
  have mileage: "\<not> score_less (score (out ! j)) (score (out ! i))"
    if "branding_priority (df ! i) = branding_priority (df ! j)"
      and "mileage_last_week (df ! i) = Num a" and "mileage_last_week (df ! j) = Num b"
      and "b \<le> a"
  proof -
    from that(1) bi bj have "out_branding_priority (out ! i) = out_branding_priority (out ! j)"
      by simp
    moreover from that(2,3) xi xj have "out_mileage_last_week (out ! i) = a"
      "out_mileage_last_week (out ! j) = b"
      by (simp_all add: mileage_of_def)
    ultimately show ?thesis unfolding si sj using that(4) pos
      by (simp add: score_of_mono_mileage)
  qed
  have numbers: "\<exists>x y. score (out ! i) = Some x \<and> score (out ! j) = Some y"
    if "2 \<le> length (numeric_values (map mileage_last_week df))"
  proof -
    from statistics_defined[OF m s that] obtain mean sv where "m = Some mean" "or_1 s = Some sv"
      by blast
    then show ?thesis unfolding si sj by (simp add: score_of_def)
  qed
  from branding mileage numbers show ?thesis by blast
qed


theorem score_monotone_witness:
  "\<exists>out. evaluate score_roster 10 None None = Inr out
         \<and> (0::nat) < length score_roster \<and> (1::nat) < length score_roster
         \<and> mileage_last_week (score_roster ! 0) = mileage_last_week (score_roster ! 1)
         \<and> branding_priority (score_roster ! 0) = Num 3
         \<and> branding_priority (score_roster ! 1) = Num 1
         \<and> 2 \<le> length (numeric_values (map mileage_last_week score_roster))
         \<and> \<not> score_less (score (out ! 0)) (score (out ! 1))
         \<and> (\<exists>x y. score (out ! 0) = Some x \<and> score (out ! 1) = Some y)
         \<and> (2::nat) < length score_roster
         \<and> branding_priority (score_roster ! 2) = branding_priority (score_roster ! 1)
         \<and> mileage_last_week (score_roster ! 2) = Num 400
         \<and> mileage_last_week (score_roster ! 1) = Num 100
         \<and> \<not> score_less (score (out ! 1)) (score (out ! 2))"
proof -
  have "\<forall>r\<in>set score_roster. \<not> is_text (branding_priority r) \<and> \<not> is_text (mileage_last_week r)"
    by (simp add: score_roster_def mk_train_def)
  from evaluate_total[OF this] obtain out where
    out: "evaluate score_roster 10 None None = Inr out"
    by blast
  have l0: "(0::nat) < length score_roster" and l1: "(1::nat) < length score_roster"
    by (simp_all add: score_roster_def)
  have m: "mileage_last_week (score_roster ! 0) = mileage_last_week (score_roster ! 1)"
    and b0: "branding_priority (score_roster ! 0) = Num 3"
    and b1: "branding_priority (score_roster ! 1) = Num 1"
    and n: "2 \<le> length (numeric_values (map mileage_last_week score_roster))"
    by (simp_all add: score_roster_def mk_train_def)
  have le: "(1::real) \<le> 3" by simp
  from score_monotone[OF out l0 l1, of 3 1] m b0 b1 n le
  have "\<not> score_less (score (out ! 0)) (score (out ! 1))
        \<and> (\<exists>x y. score (out ! 0) = Some x \<and> score (out ! 1) = Some y)"
    by blast
  moreover have l2: "(2::nat) < length score_roster" by (simp add: score_roster_def)
  have b: "branding_priority (score_roster ! 2) = branding_priority (score_roster ! 1)"
    and m2: "mileage_last_week (score_roster ! 2) = Num 400"
    and m1: "mileage_last_week (score_roster ! 1) = Num 100"
    by (simp_all add: score_roster_def mk_train_def)
  have le': "(100::real) \<le> 400" by simp
  from score_monotone[OF out l2 l1, of 400 100] b m2 m1 le'
  have "\<not> score_less (score (out ! 1)) (score (out ! 2))" by blast
  ultimately show ?thesis using out l0 l1 l2 m b0 b1 n b m2 m1 by blast
qed

section \<open>The score\<close>





text \<open>
  On a roster of one train the standard deviation is NaN, which \<^verbatim>\<open>or 1\<close> does not
  replace, and so is the score.
\<close>

lemma single_row_score_is_nan:
  "evaluate single_roster 10 None None = Inr [mk_evaluation ''TS01'' True None ''OK'' 2 300]"
  by (simp add: evaluate_defs single_roster_def)








section \<open>Missing and non-numeric scoring cells\<close>





lemma mset_insert_desc: "mset (insert_desc x ys) = add_mset x (mset ys)"
  by (induction ys) simp_all

lemma mset_sort_values_desc: "mset (sort_values_desc xs) = mset xs"
  by (induction xs) (simp_all add: mset_insert_desc)

lemma length_sort_values_desc: "length (sort_values_desc xs) = length xs"
  using mset_sort_values_desc[of xs] by (metis size_mset)

lemma set_sort_values_desc: "set (sort_values_desc xs) = set xs"
  using mset_sort_values_desc[of xs] by (metis set_mset_mset)

lemma truncate_with_assignment: "evaluation.truncate (with_assignment a e) = e"
  by (simp add: with_assignment_def evaluation.truncate_def evaluation.extend_def)

lemma assignment_with_assignment: "assignment (with_assignment a e) = a"
  by (simp add: with_assignment_def evaluation.extend_def allocation.fields_def)

lemma eligible_with_assignment: "eligible (with_assignment a e) = eligible e"
  by (simp add: with_assignment_def evaluation.extend_def)

lemma three_slices: "take n xs @ take m (drop n xs) @ drop (n + m) xs = xs"
proof -
  have "take m (drop n xs) @ drop m (drop n xs) = drop n xs" by (rule append_take_drop_id)
  then have "take m (drop n xs) @ drop (n + m) xs = drop n xs" by (simp add: add.commute)
  then show ?thesis by simp
qed

section \<open>Rank and assign\<close>

text \<open>
  On a table of at least one evaluated train the three buckets partition the fleet: every
  row is in exactly one of them, Service holds the first \<open>n\<close> eligible rows, Standby the
  next \<open>m\<close>, and the other eligible rows and all ineligible rows are
  Maintenance/Blocked. Quotas larger than the number of eligible trains raise nothing.
\<close>

lemma rank_and_assign_partition:
  assumes "evaluated \<noteq> []"
  shows "\<exists>service standby remaining.
           rank_and_assign evaluated n m = Inr (service, standby, remaining)
         \<and> mset (map evaluation.truncate (service @ standby @ remaining)) = mset evaluated
         \<and> length service = min n (length (filter eligible evaluated))
         \<and> length standby = min m (length (filter eligible evaluated) - length service)
         \<and> length service + length standby + length remaining = length evaluated
         \<and> (\<forall>a\<in>set service. assignment a = Service \<and> eligible a)
         \<and> (\<forall>a\<in>set standby. assignment a = Standby \<and> eligible a)
         \<and> (\<forall>a\<in>set remaining. assignment a = Maintenance_Blocked)
         \<and> (\<forall>e\<in>set evaluated. \<not> eligible e
               \<longrightarrow> with_assignment Maintenance_Blocked e \<in> set remaining)"
proof -
  define el where "el = sort_values_desc (filter eligible evaluated)"
  define inel where "inel = filter (\<lambda>e. \<not> eligible e) evaluated"
  define service where "service = map (with_assignment Service) (take n el)"
  define standby where "standby = map (with_assignment Standby) (take m (drop n el))"
  define remaining where
    "remaining = map (with_assignment Maintenance_Blocked) (drop (n + m) el @ inel)"
  have run: "rank_and_assign evaluated n m = Inr (service, standby, remaining)"
    using assms
    by (simp add: rank_and_assign_def Let_def el_def inel_def service_def standby_def
          remaining_def)
  have "map evaluation.truncate (service @ standby @ remaining)
          = (take n el @ take m (drop n el) @ drop (n + m) el) @ inel"
    by (simp add: service_def standby_def remaining_def comp_def truncate_with_assignment)
  then have "map evaluation.truncate (service @ standby @ remaining) = el @ inel"
    by (simp only: three_slices)
  then have part: "mset (map evaluation.truncate (service @ standby @ remaining)) = mset evaluated"
    by (simp add: el_def inel_def mset_sort_values_desc)
  have len_el: "length el = length (filter eligible evaluated)"
    by (simp add: el_def length_sort_values_desc)
  have ls: "length service = min n (length (filter eligible evaluated))"
    by (simp add: service_def len_el min.commute)
  have lb: "length standby = min m (length (filter eligible evaluated) - length service)"
    by (simp add: standby_def service_def len_el min.commute)
  have total: "length service + length standby + length remaining = length evaluated"
    using part by (metis length_append length_map size_mset add.assoc)
  have el_ok: "eligible e" if "e \<in> set el" for e
    using that by (simp add: el_def set_sort_values_desc)
  have s1: "\<forall>a\<in>set service. assignment a = Service \<and> eligible a"
    by (auto simp: service_def assignment_with_assignment eligible_with_assignment
          dest: in_set_takeD intro: el_ok)
  have s2: "\<forall>a\<in>set standby. assignment a = Standby \<and> eligible a"
    by (auto simp: standby_def assignment_with_assignment eligible_with_assignment
          dest!: in_set_takeD in_set_dropD intro: el_ok)
  have s3: "\<forall>a\<in>set remaining. assignment a = Maintenance_Blocked"
    by (auto simp: remaining_def assignment_with_assignment)
  have s4: "\<forall>e\<in>set evaluated. \<not> eligible e
               \<longrightarrow> with_assignment Maintenance_Blocked e \<in> set remaining"
    by (auto simp: remaining_def inel_def)
  from run part ls lb total s1 s2 s3 s4 show ?thesis by blast
qed

text \<open>
  The plan for \<open>demo_roster\<close> with one service and one standby place: the only eligible
  train goes to Service, Standby stays empty, the two blocked trains follow.
\<close>

lemma demo_plan:
  "induction_plan demo_roster 10 (Some demo_job_cards) (Some demo_slots) 1 1 =
     Inr [with_assignment Service (demo_evaluated ! 0),
          with_assignment Maintenance_Blocked (demo_evaluated ! 1),
          with_assignment Maintenance_Blocked (demo_evaluated ! 2)]"
  by (simp add: induction_plan_def demo_evaluate rank_and_assign_def)
     (simp add: demo_evaluated_def mk_evaluation_def)

text \<open>
  C1. The partition is promised for every roster, but a roster with no row (a file that
  holds the header line only) stops the run: \<open>evaluate\<close> returns a table made of no
  rows, which has no \<^verbatim>\<open>eligible\<close> column, and line 130 raises \<^verbatim>\<open>KeyError\<close>,
  where the claim has three empty buckets.
\<close>

theorem empty_roster_raises_KeyError:
  "evaluate [] today job_cards cleaning_slots = Inr []
   \<and> rank_and_assign [] required_service_count standby_count = Inl KeyError
   \<and> induction_plan [] today job_cards cleaning_slots required_service_count standby_count
       = Inl KeyError"
  by (simp add: evaluate_def col_mean_def col_std_def induction_plan_def rank_and_assign_def)

lemma loop_rows:
  "map_sum id l_rows (loop today jc rs s)
     = map_sum id (\<lambda>out. l_rows s @ out)
         (eval_rows today jc (l_cleaning_capacity s) (l_mileage_mean s) (l_mileage_std s)
            (l_cleaning_used s) rs)"
proof (induction rs arbitrary: s)
  case Nil
  show ?case by simp
next
  case (Cons r rs)
  show ?case
  proof (cases "eval_row today jc (l_cleaning_capacity s) (l_mileage_mean s) (l_mileage_std s)
                  (l_cleaning_used s) r")
    case (Inl e)
    then show ?thesis by (simp add: loop_body_def)
  next
    case (Inr p)
    obtain row u where p: "p = (row, u)" by (cases p)
    let ?s = "s\<lparr>l_cleaning_used := u, l_rows := l_rows s @ [row]\<rparr>"
    have body: "loop_body today jc r s = Inr ?s" by (simp add: loop_body_def Inr p)
    show ?thesis
      using Cons.IH[of ?s]
      by (cases "eval_rows today jc (l_cleaning_capacity s) (l_mileage_mean s) (l_mileage_std s) u rs")
         (simp_all add: body Inr p)
  qed
qed

section \<open>No state is shared between calls\<close>

text \<open>
  C9. Let the variables that \<open>evaluate\<close> assigns (the rows, the cleaning capacity, the
  counter of used slots, the mileage mean and standard deviation) live in a state that
  outlasts the call. Whatever that state holds when a call starts, left there by any
  earlier calls, the call returns what \<open>evaluate\<close> returns on its arguments alone: the
  function assigns each of these variables before it reads it. Two calls with the same
  roster, reference date, job-card table and cleaning-slot table therefore give the same
  result.
\<close>

theorem evaluate_fresh_per_call:
  "map_sum id fst (evaluate_st s1 df today job_cards cleaning_slots)
     = evaluate df today job_cards cleaning_slots
   \<and> map_sum id fst (evaluate_st s1 df today job_cards cleaning_slots)
     = map_sum id fst (evaluate_st s2 df today job_cards cleaning_slots)"
proof -
  have one: "map_sum id fst (evaluate_st s df today job_cards cleaning_slots)
     = evaluate df today job_cards cleaning_slots" for s
  proof (cases "col_mean (map mileage_last_week df)")
    case (Inl e)
    then show ?thesis by (simp add: evaluate_st_def evaluate_def)
  next
    case m: (Inr m)
    show ?thesis
    proof (cases "col_std (map mileage_last_week df)")
      case (Inl e)
      then show ?thesis by (simp add: evaluate_st_def evaluate_def m)
    next
      case sd: (Inr sd)
      define s6 where "s6 = s\<lparr>l_rows := [], l_cleaning_capacity := cleaning_capacity_of cleaning_slots,
          l_cleaning_used := 0, l_mileage_mean := m, l_mileage_std := or_1 sd\<rparr>"
      have st: "evaluate_st s df today job_cards cleaning_slots
                  = (case loop today job_cards df s6 of
                       Inl e \<Rightarrow> Inl e | Inr s7 \<Rightarrow> Inr (l_rows s7, s7))"
        by (cases cleaning_slots)
           (simp_all add: evaluate_st_def m sd s6_def cleaning_capacity_of_def Let_def)
      have "map_sum id fst (evaluate_st s df today job_cards cleaning_slots)
              = map_sum id l_rows (loop today job_cards df s6)"
        unfolding st by (cases "loop today job_cards df s6") simp_all
      also have "\<dots> =
           eval_rows today job_cards (cleaning_capacity_of cleaning_slots) m (or_1 sd) 0 df"
        unfolding loop_rows
        by (cases "eval_rows today job_cards (cleaning_capacity_of cleaning_slots) m (or_1 sd) 0 df")
           (simp_all add: s6_def)
      also have "\<dots> = evaluate df today job_cards cleaning_slots"
        by (simp add: evaluate_def m sd)
      finally show ?thesis .
    qed
  qed
  from one[of s1] one[of s2] show ?thesis by simp
qed

end
